theory Spec2Isabelle
  imports Main
begin

section \<open>Data model of the API explorer\<close>

text \<open>
  The interfaces of \<^verbatim>\<open>src/components/ApiTestPanel.tsx\<close>. Only the fields that the
  handlers read are kept; the display-only ones (\<^verbatim>\<open>description\<close>, \<^verbatim>\<open>type\<close>,
  \<^verbatim>\<open>accept\<close>, \<^verbatim>\<open>fullDescription\<close>, \<^verbatim>\<open>tag\<close>, \<^verbatim>\<open>codeExample\<close> and the display
  \<^verbatim>\<open>name\<close> of an endpoint) are left out. An optional field \<^verbatim>\<open>f?: T\<close> is an
  \<open>option\<close>, with \<open>None\<close> for \<^verbatim>\<open>undefined\<close>. Field names carry the interface as
  a prefix, since three interfaces share \<^verbatim>\<open>name\<close> and \<^verbatim>\<open>required\<close>.

  A JavaScript string is a \<open>string\<close>, each \<open>char\<close> standing for one code unit
  in the range 0 to 255.
\<close>

record Parameter =
  param_name :: string
  param_required :: bool
  param_in :: "string option"

record FormField =
  field_name :: string
  field_required :: bool
  field_defaultValue :: "string option"

record FileUpload =
  upload_required :: bool
  upload_multiple :: bool
  upload_name :: string

datatype Method = GET | POST | PUT | DELETE | PATCH

record ApiEndpoint =
  ep_id :: string
  ep_method :: Method
  path :: string
  parameters :: "Parameter list option"
  formFields :: "FormField list option"
  fileUpload :: "FileUpload option"
  requestBodyType :: "string option"

text \<open>A browser \<^verbatim>\<open>File\<close> handle, identified by its file name.\<close>

datatype File = File string

text \<open>
  The eight \<^verbatim>\<open>useState\<close> cells of the component \<^verbatim>\<open>ApiTestPanel\<close>. A
  \<^verbatim>\<open>Record<string, string>\<close> is a map from its own keys to strings; a key that was
  never written reads as \<^verbatim>\<open>undefined\<close>, here \<open>None\<close> (the names that every
  JavaScript object inherits, such as \<^verbatim>\<open>constructor\<close>, are not modelled).
\<close>

record panel_state =
  apiKey :: string
  selectedFiles :: "File list"
  formData :: "string \<rightharpoonup> string"
  pathParams :: "string \<rightharpoonup> string"
  response :: string
  responseStatus :: "nat option"
  isLoading :: bool
  error :: string

section \<open>Strings\<close>

text \<open>
  \<^verbatim>\<open>String.prototype.trim\<close> removes leading and trailing white space and line
  terminators. Of the code points that ECMAScript lists, these lie in the modelled range:
  TAB, LF, VT, FF, CR, SPACE and NO-BREAK SPACE.
\<close>

definition is_whitespace :: "char \<Rightarrow> bool" where
  "is_whitespace c \<longleftrightarrow>
     c \<in> set [CHR 0x09, CHR 0x0A, CHR 0x0B, CHR 0x0C, CHR 0x0D, CHR 0x20, CHR 0xA0]"

definition trim :: "string \<Rightarrow> string" where
  "trim s = rev (dropWhile is_whitespace (rev (dropWhile is_whitespace s)))"

text \<open>\<^verbatim>\<open>xs.join(sep)\<close> on an array of strings.\<close>

fun join :: "string \<Rightarrow> string list \<Rightarrow> string" where
  "join sep [] = []"
| "join sep [x] = x"
| "join sep (x # y # ys) = x @ sep @ join sep (y # ys)"

text \<open>
  \<^verbatim>\<open>!m[k]?.trim()\<close>: true when the key is unset and when its value is empty after
  trimming.
\<close>

definition blank :: "string option \<Rightarrow> bool" where
  "blank v = (case v of None \<Rightarrow> True | Some s \<Rightarrow> trim s = [])"

section \<open>File selection\<close>

text \<open>
  \<^verbatim>\<open>endpoint.fileUpload?.multiple\<close>: false when the endpoint declares no file upload.
\<close>

definition fileUpload_multiple :: "ApiEndpoint \<Rightarrow> bool" where
  "fileUpload_multiple endpoint =
     (case fileUpload endpoint of None \<Rightarrow> False | Some u \<Rightarrow> upload_multiple u)"

text \<open>
  \<^verbatim>\<open>handleFileSelect\<close>. The argument is \<^verbatim>\<open>event.target.files\<close>, which is
  \<^verbatim>\<open>null\<close> (\<open>None\<close>) or a list of files; \<^verbatim>\<open>files.slice(0, 1)\<close> is \<open>take 1\<close>.
\<close>

definition handleFileSelect :: "ApiEndpoint \<Rightarrow> File list option \<Rightarrow> panel_state \<Rightarrow> panel_state" where
  "handleFileSelect endpoint target_files st =
     (let files = (case target_files of None \<Rightarrow> [] | Some fs \<Rightarrow> fs)
      in if fileUpload_multiple endpoint
         then st\<lparr>selectedFiles := selectedFiles st @ files\<rparr>
         else st\<lparr>selectedFiles := take 1 files\<rparr>)"

definition handleFormDataChange :: "string \<Rightarrow> string \<Rightarrow> panel_state \<Rightarrow> panel_state" where
  "handleFormDataChange name v st = st\<lparr>formData := (formData st)(name \<mapsto> v)\<rparr>"

definition handlePathParamChange :: "string \<Rightarrow> string \<Rightarrow> panel_state \<Rightarrow> panel_state" where
  "handlePathParamChange name v st = st\<lparr>pathParams := (pathParams st)(name \<mapsto> v)\<rparr>"

section \<open>Building the URL\<close>

text \<open>
  \<^verbatim>\<open>String.prototype.replace\<close> with a string pattern and a string replacement, as
  ECMAScript defines it: the first occurrence of the pattern is replaced, and the
  replacement text is a template in which \<^verbatim>\<open>$$\<close> stands for a dollar sign,
  \<^verbatim>\<open>$&\<close> for the matched text, \<^verbatim>\<open>$`\<close> for the text before the match and
  \<^verbatim>\<open>$'\<close> for the text after it. A string pattern has no capture groups, so every
  other use of the dollar sign stands for itself.
\<close>

fun indexOf :: "string \<Rightarrow> string \<Rightarrow> nat option" where
  "indexOf [] searchString = (if searchString = [] then Some 0 else None)"
| "indexOf (c # cs) searchString =
     (if take (length searchString) (c # cs) = searchString then Some 0
      else map_option Suc (indexOf cs searchString))"

fun GetSubstitution :: "string \<Rightarrow> string \<Rightarrow> nat \<Rightarrow> string \<Rightarrow> string" where
  "GetSubstitution matched str position (c # d # template) =
     (if c = CHR ''$'' \<and> d = CHR ''$''
        then CHR ''$'' # GetSubstitution matched str position template
      else if c = CHR ''$'' \<and> d = CHR 0x60
        then take position str @ GetSubstitution matched str position template
      else if c = CHR ''$'' \<and> d = CHR ''&''
        then matched @ GetSubstitution matched str position template
      else if c = CHR ''$'' \<and> d = CHR 0x27
        then drop (position + length matched) str @ GetSubstitution matched str position template
      else c # GetSubstitution matched str position (d # template))"
| "GetSubstitution matched str position template = template"

definition replace :: "string \<Rightarrow> string \<Rightarrow> string \<Rightarrow> string" where
  "replace str searchString replaceValue =
     (case indexOf str searchString of
        None \<Rightarrow> str
      | Some position \<Rightarrow>
          take position str
          @ GetSubstitution searchString str position replaceValue
          @ drop (position + length searchString) str)"

text \<open>
  \<^verbatim>\<open>x?.forEach(f)\<close> on an optional array visits nothing when the array is
  \<^verbatim>\<open>undefined\<close>.
\<close>

definition elements :: "'a list option \<Rightarrow> 'a list" where
  "elements xs = (case xs of None \<Rightarrow> [] | Some ys \<Rightarrow> ys)"

text \<open>
  \<^verbatim>\<open>buildApiUrl\<close>. The test \<^verbatim>\<open>pathParams[param.name]\<close> is true for a value that is
  set and is not the empty string.
\<close>

definition buildApiUrl :: "ApiEndpoint \<Rightarrow> panel_state \<Rightarrow> string" where
  "buildApiUrl endpoint st =
     fold (\<lambda>param url.
             case pathParams st (param_name param) of
               None \<Rightarrow> url
             | Some v \<Rightarrow>
                 if param_in param = Some ''path'' \<and> v \<noteq> []
                 then replace url (''{'' @ param_name param @ ''}'') v
                 else url)
          (elements (parameters endpoint))
          (''https://kong-uat-proxy.hachiai.com/quest'' @ path endpoint)"

section \<open>Validation and the request body\<close>

text \<open>
  The array \<^verbatim>\<open>missingFields\<close> of \<^verbatim>\<open>handleApiCall\<close>, filled by three blocks of
  \<^verbatim>\<open>push\<close>.
\<close>

definition missingFields :: "ApiEndpoint \<Rightarrow> panel_state \<Rightarrow> string list" where
  "missingFields endpoint st =
     (let m0 = [];
          m1 = (if (case fileUpload endpoint of None \<Rightarrow> False | Some u \<Rightarrow> upload_required u)
                     \<and> length (selectedFiles st) = 0
                then m0 @ [''file(s)''] else m0);
          m2 = fold (\<lambda>field m.
                       if field_required field \<and> blank (formData st (field_name field))
                       then m @ [field_name field] else m)
                    (elements (formFields endpoint)) m1;
          m3 = fold (\<lambda>param m.
                       if param_required param \<and> param_in param = Some ''path''
                          \<and> blank (pathParams st (param_name param))
                       then m @ [param_name param] else m)
                    (elements (parameters endpoint)) m2
      in m3)"

text \<open>
  A \<^verbatim>\<open>FormData\<close> body is the list of its entries in the order of the
  \<^verbatim>\<open>append\<close> calls. The variable \<^verbatim>\<open>body\<close> stays \<^verbatim>\<open>undefined\<close> (\<open>None\<close>) for
  a GET request and for any body type other than multipart.
\<close>

datatype entry_value = FileValue File | StringValue string

type_synonym FormData = "(string \<times> entry_value) list"

definition build_body :: "ApiEndpoint \<Rightarrow> panel_state \<Rightarrow> FormData option" where
  "build_body endpoint st =
     (if ep_method endpoint \<noteq> GET then
        if requestBodyType endpoint = Some ''multipart/form-data'' then
          (let b0 = [];
               b1 = (case fileUpload endpoint of
                       None \<Rightarrow> b0
                     | Some u \<Rightarrow>
                         fold (\<lambda>file b. b @ [(upload_name u, FileValue file)])
                              (selectedFiles st) b0);
               b2 = fold (\<lambda>field b.
                            case formData st (field_name field) of
                              None \<Rightarrow> b
                            | Some v \<Rightarrow> b @ [(field_name field, StringValue v)])
                         (elements (formFields endpoint)) b1
           in Some b2)
        else None
      else None)"

section \<open>The platform\<close>

text \<open>
  What \<^verbatim>\<open>handleApiCall\<close> asks of the browser. A promise that rejects and a call that
  throws both deliver a thrown value; the handler only asks whether that value is an
  \<^verbatim>\<open>Error\<close>, and reads its \<^verbatim>\<open>message\<close> if it is.
\<close>

datatype thrown = Error string | NotAnError

text \<open>
  A \<^verbatim>\<open>Response\<close>: its status, its status text, and what \<^verbatim>\<open>await text()\<close>
  delivers, the body text or a thrown value.
\<close>

record Response =
  status :: nat
  statusText :: string
  body_text :: "thrown + string"

text \<open>The Fetch standard defines \<^verbatim>\<open>Response.ok\<close>: the status is in the range 200 to 299.\<close>

definition ok :: "Response \<Rightarrow> bool" where
  "ok r \<longleftrightarrow> 200 \<le> status r \<and> status r \<le> 299"

record RequestInit =
  req_method :: Method
  req_headers :: "(string \<times> string) list"
  req_body :: "FormData option"

text \<open>
  The platform functions are parameters of the model: \<open>fetch\<close> answers a request with a
  response or a thrown value, \<open>JSON_parse\<close> delivers the parsed value or \<open>None\<close> when
  \<^verbatim>\<open>JSON.parse\<close> throws, and \<open>JSON_stringify\<close> is \<^verbatim>\<open>JSON.stringify(v, null, 2)\<close> on a
  parsed value. Every theorem below holds for all of them.
\<close>

record 'json platform =
  fetch :: "string \<Rightarrow> RequestInit \<Rightarrow> thrown + Response"
  JSON_parse :: "string \<Rightarrow> 'json option"
  JSON_stringify :: "'json \<Rightarrow> string"

text \<open>A number in a template literal: the decimal digits of a non-negative integer.\<close>

fun decimal :: "nat \<Rightarrow> string" where
  "decimal n =
     (if n < 10 then [char_of (48 + n)]
      else decimal (n div 10) @ [char_of (48 + n mod 10)])"

declare decimal.simps [simp del]

section \<open>The request handler\<close>

text \<open>
  \<^verbatim>\<open>handleApiCall\<close> is modelled by the sequence of effects it performs, in order: the
  calls of the state setters, of \<^verbatim>\<open>toast\<close> and of \<^verbatim>\<open>fetch\<close>.
\<close>

record toast_args =
  title :: string
  description :: string
  variant :: "string option"

datatype event =
    SetIsLoading bool
  | SetError string
  | SetResponse string
  | SetResponseStatus "nat option"
  | Toast toast_args
  | Fetch string RequestInit

text \<open>
  The \<^verbatim>\<open>catch\<close> block, with its local \<^verbatim>\<open>errorMessage\<close>:
  \<^verbatim>\<open>err instanceof Error ? err.message : "An unexpected error occurred"\<close>.
\<close>

definition errorMessage :: "thrown \<Rightarrow> string" where
  "errorMessage err =
     (case err of Error message \<Rightarrow> message
                | NotAnError \<Rightarrow> ''An unexpected error occurred'')"

definition catch_block :: "thrown \<Rightarrow> event list" where
  "catch_block err =
     [SetError (errorMessage err),
      SetResponse (''Error: '' @ errorMessage err),
      Toast \<lparr>title = ''Request Failed'', description = errorMessage err,
             variant = Some ''destructive''\<rparr>]"

text \<open>
  The locals \<^verbatim>\<open>headers\<close> and \<^verbatim>\<open>fetchOptions\<close> of the \<^verbatim>\<open>try\<close> block. The
  spread \<^verbatim>\<open>...(body && { body })\<close> adds the body whenever one was built, since a
  \<^verbatim>\<open>FormData\<close> object is truthy even when it has no entry.
\<close>

definition fetchOptions :: "ApiEndpoint \<Rightarrow> panel_state \<Rightarrow> RequestInit" where
  "fetchOptions endpoint st =
     \<lparr>req_method = ep_method endpoint,
      req_headers = [(''apiKey'', apiKey st)],
      req_body = build_body endpoint st\<rparr>"

text \<open>
  The \<^verbatim>\<open>try\<close> block. A value thrown by \<^verbatim>\<open>fetch\<close> or by \<^verbatim>\<open>text()\<close> ends it
  and enters the \<^verbatim>\<open>catch\<close> block; the inner \<^verbatim>\<open>try\<close> around \<^verbatim>\<open>JSON.parse\<close>
  falls back to the raw text.
\<close>

definition try_block :: "'json platform \<Rightarrow> ApiEndpoint \<Rightarrow> panel_state \<Rightarrow> event list" where
  "try_block P endpoint st =
     (let url = buildApiUrl endpoint st
      in Fetch url (fetchOptions endpoint st) #
         (case fetch P url (fetchOptions endpoint st) of
            Inl err \<Rightarrow> catch_block err
          | Inr apiResponse \<Rightarrow>
              (case body_text apiResponse of
                 Inl err \<Rightarrow> catch_block err
               | Inr responseText \<Rightarrow>
                   [SetResponseStatus (Some (status apiResponse)),
                    SetResponse (case JSON_parse P responseText of
                                   Some jsonResponse \<Rightarrow> JSON_stringify P jsonResponse
                                 | None \<Rightarrow> responseText)]
                   @ (if \<not> ok apiResponse
                      then [SetError (''HTTP '' @ decimal (status apiResponse) @ '': ''
                                      @ statusText apiResponse),
                            Toast \<lparr>title = ''API Error'',
                                   description = ''Request failed with status ''
                                                 @ decimal (status apiResponse),
                                   variant = Some ''destructive''\<rparr>]
                      else [Toast \<lparr>title = ''Success'',
                                   description = ''API request completed successfully'',
                                   variant = None\<rparr>]))))"

text \<open>
  \<^verbatim>\<open>handleApiCall\<close>: the two early returns, then the four resets, the \<^verbatim>\<open>try\<close>
  block and the \<^verbatim>\<open>finally\<close> block.
\<close>

definition handleApiCall :: "'json platform \<Rightarrow> ApiEndpoint \<Rightarrow> panel_state \<Rightarrow> event list" where
  "handleApiCall P endpoint st =
     (if trim (apiKey st) = [] then
        [Toast \<lparr>title = ''Error'', description = ''Please enter your API key'',
                variant = Some ''destructive''\<rparr>]
      else if length (missingFields endpoint st) > 0 then
        [Toast \<lparr>title = ''Missing Required Fields'',
                description = ''Please provide: '' @ join '', '' (missingFields endpoint st),
                variant = Some ''destructive''\<rparr>]
      else
        [SetIsLoading True, SetError [], SetResponse [], SetResponseStatus None]
        @ try_block P endpoint st
        @ [SetIsLoading False])"

text \<open>The state after a sequence of effects; \<^verbatim>\<open>toast\<close> and \<^verbatim>\<open>fetch\<close> write no state.\<close>

fun apply_event :: "event \<Rightarrow> panel_state \<Rightarrow> panel_state" where
  "apply_event (SetIsLoading b) st = st\<lparr>isLoading := b\<rparr>"
| "apply_event (SetError e) st = st\<lparr>error := e\<rparr>"
| "apply_event (SetResponse r) st = st\<lparr>response := r\<rparr>"
| "apply_event (SetResponseStatus c) st = st\<lparr>responseStatus := c\<rparr>"
| "apply_event (Toast t) st = st"
| "apply_event (Fetch url opts) st = st"

definition run_events :: "event list \<Rightarrow> panel_state \<Rightarrow> panel_state" where
  "run_events evs st = fold apply_event evs st"

fun is_Fetch :: "event \<Rightarrow> bool" where
  "is_Fetch (Fetch url opts) = True"
| "is_Fetch e = False"

fun is_SetIsLoading :: "event \<Rightarrow> bool" where
  "is_SetIsLoading (SetIsLoading b) = True"
| "is_SetIsLoading e = False"

section \<open>The page: catalog and selection\<close>

text \<open>
  The four entries of \<^verbatim>\<open>realEndpoints\<close> in \<^verbatim>\<open>src/pages/Index.tsx\<close>, in the order of
  the array.
\<close>

definition endpoint_classify :: ApiEndpoint where
  "endpoint_classify =
     \<lparr>ep_id = ''classify'', ep_method = POST, path = ''/v1/classify'',
      parameters = Some [], formFields = None,
      fileUpload = Some \<lparr>upload_required = True, upload_multiple = False,
                         upload_name = ''file''\<rparr>,
      requestBodyType = Some ''multipart/form-data''\<rparr>"

definition endpoint_extract_async :: ApiEndpoint where
  "endpoint_extract_async =
     \<lparr>ep_id = ''extract-async'', ep_method = POST, path = ''/v1/extract/async'',
      parameters = Some [],
      formFields = Some
        [\<lparr>field_name = ''query'', field_required = True, field_defaultValue = None\<rparr>,
         \<lparr>field_name = ''tags'', field_required = False, field_defaultValue = Some ''[]''\<rparr>],
      fileUpload = Some \<lparr>upload_required = True, upload_multiple = True,
                         upload_name = ''files''\<rparr>,
      requestBodyType = Some ''multipart/form-data''\<rparr>"

definition endpoint_extract :: ApiEndpoint where
  "endpoint_extract =
     \<lparr>ep_id = ''extract'', ep_method = POST, path = ''/v1/extract'',
      parameters = Some [],
      formFields = Some
        [\<lparr>field_name = ''query'', field_required = True, field_defaultValue = None\<rparr>,
         \<lparr>field_name = ''tags'', field_required = False, field_defaultValue = Some ''[]''\<rparr>],
      fileUpload = Some \<lparr>upload_required = True, upload_multiple = True,
                         upload_name = ''files''\<rparr>,
      requestBodyType = Some ''multipart/form-data''\<rparr>"

definition endpoint_trace :: ApiEndpoint where
  "endpoint_trace =
     \<lparr>ep_id = ''trace'', ep_method = GET, path = ''/v1/trace_id/{trace_id}'',
      parameters = Some
        [\<lparr>param_name = ''trace_id'', param_required = True, param_in = Some ''path''\<rparr>],
      formFields = None, fileUpload = None, requestBodyType = None\<rparr>"

definition realEndpoints :: "ApiEndpoint list" where
  "realEndpoints =
     [endpoint_classify, endpoint_extract_async, endpoint_extract, endpoint_trace]"

text \<open>
  The object \<^verbatim>\<open>initialFormData\<close> that the initialiser of \<^verbatim>\<open>ApiTestPanel\<close> builds:
  \<^verbatim>\<open>field.defaultValue || ""\<close> is the default value, and the empty string when there
  is none.
\<close>

definition initialFormData :: "ApiEndpoint \<Rightarrow> (string \<rightharpoonup> string)" where
  "initialFormData endpoint =
     fold (\<lambda>field m.
             m(field_name field \<mapsto>
                 (case field_defaultValue field of None \<Rightarrow> [] | Some d \<Rightarrow> d)))
          (elements (formFields endpoint)) Map.empty"

text \<open>
  The state cells of \<^verbatim>\<open>ApiTestPanel\<close> under React's rule for \<^verbatim>\<open>useState\<close>: on the
  first render of a component (no stored state, \<open>None\<close>) every cell takes its initial
  value, and the initialiser function handed to the ninth \<^verbatim>\<open>useState\<close> call runs and
  calls \<^verbatim>\<open>setFormData\<close>; on every later render the cells keep what is stored, and the
  initialiser does not run again. The second argument \<^verbatim>\<open>[endpoint]\<close> of that call is not
  a parameter of \<^verbatim>\<open>useState\<close> and has no effect.
\<close>

definition ApiTestPanel_mount :: "ApiEndpoint \<Rightarrow> panel_state" where
  "ApiTestPanel_mount endpoint =
     \<lparr>apiKey = [], selectedFiles = [], formData = initialFormData endpoint,
      pathParams = Map.empty, response = [], responseStatus = None,
      isLoading = False, error = []\<rparr>"

definition ApiTestPanel_render :: "ApiEndpoint \<Rightarrow> panel_state option \<Rightarrow> panel_state" where
  "ApiTestPanel_render endpoint stored =
     (case stored of None \<Rightarrow> ApiTestPanel_mount endpoint | Some st \<Rightarrow> st)"

text \<open>
  The page \<^verbatim>\<open>Index\<close> holds the id of the selected endpoint, computes
  \<^verbatim>\<open>currentEndpoint\<close> from it at every render, and renders one \<^verbatim>\<open>ApiTestPanel\<close>,
  always at the same place and without a \<^verbatim>\<open>key\<close>, so that React keeps the panel's
  stored state when the endpoint changes.
\<close>

record app_state =
  selectedEndpoint :: string
  panel :: panel_state

definition currentEndpoint :: "string \<Rightarrow> ApiEndpoint" where
  "currentEndpoint selected =
     (case find (\<lambda>ep. ep_id ep = selected) realEndpoints of
        Some ep \<Rightarrow> ep
      | None \<Rightarrow> realEndpoints ! 0)"

definition Index_render :: "string \<Rightarrow> panel_state option \<Rightarrow> app_state" where
  "Index_render selected stored =
     \<lparr>selectedEndpoint = selected,
      panel = ApiTestPanel_render (currentEndpoint selected) stored\<rparr>"

text \<open>The first render of the page: \<^verbatim>\<open>useState("classify")\<close>.\<close>

definition Index_mount :: app_state where
  "Index_mount = Index_render ''classify'' None"

text \<open>
  A click in the sidebar: \<^verbatim>\<open>onSelectEndpoint\<close> is \<^verbatim>\<open>setSelectedEndpoint\<close>, and the page
  renders again.
\<close>

definition onSelectEndpoint :: "string \<Rightarrow> app_state \<Rightarrow> app_state" where
  "onSelectEndpoint endpointId app = Index_render endpointId (Some (panel app))"

section \<open>Statements of the specification, for comparison\<close>

text \<open>
  The list of missing inputs as the specification words it: the file upload first (under
  the label that the handler prints for it), then the required form fields without a
  value, then the required path parameters without a value, each group in the order of
  its declaration.
\<close>

definition missing_required :: "ApiEndpoint \<Rightarrow> panel_state \<Rightarrow> string list" where
  "missing_required endpoint st =
     (if (case fileUpload endpoint of None \<Rightarrow> False | Some u \<Rightarrow> upload_required u)
         \<and> selectedFiles st = []
      then [''file(s)''] else [])
     @ map field_name
         (filter (\<lambda>field. field_required field \<and> blank (formData st (field_name field)))
                 (elements (formFields endpoint)))
     @ map param_name
         (filter (\<lambda>param. param_required param \<and> param_in param = Some ''path''
                          \<and> blank (pathParams st (param_name param)))
                 (elements (parameters endpoint)))"

text \<open>
  The multipart body as the specification words it: one entry per selected file under the
  upload's field name, then one entry per declared form field, with the empty string for
  a field that is unset.
\<close>

definition body_by_spec :: "ApiEndpoint \<Rightarrow> panel_state \<Rightarrow> FormData" where
  "body_by_spec endpoint st =
     (case fileUpload endpoint of
        None \<Rightarrow> []
      | Some u \<Rightarrow> map (\<lambda>file. (upload_name u, FileValue file)) (selectedFiles st))
     @ map (\<lambda>field. (field_name field,
                       StringValue (case formData st (field_name field) of
                                      None \<Rightarrow> [] | Some v \<Rightarrow> v)))
           (elements (formFields endpoint))"

section \<open>Sample inputs\<close>

text \<open>
  A platform for the examples. Its \<open>fetch\<close> gives the same answer to every request. Its
  JSON functions know the two bodies that the examples use, as objects with string
  members, and agree on them with \<^verbatim>\<open>JSON.parse\<close> and \<^verbatim>\<open>JSON.stringify(v, null, 2)\<close>.
\<close>

definition sample_parse :: "string \<Rightarrow> (string \<times> string) list option" where
  \<open>sample_parse s =
     (if s = ''{"status":"ok"}'' then Some [(''status'', ''ok'')]
      else if s = ''{"error":"missing"}'' then Some [(''error'', ''missing'')]
      else None)\<close>

definition sample_stringify :: "(string \<times> string) list \<Rightarrow> string" where
  \<open>sample_stringify members =
     ''{'' @ [CHR 0x0A]
     @ join ('','' @ [CHR 0x0A]) (map (\<lambda>(k, v). ''  "'' @ k @ ''": "'' @ v @ ''"'') members)
     @ [CHR 0x0A] @ ''}''\<close>

definition sample_platform :: "thrown + Response \<Rightarrow> (string \<times> string) list platform" where
  "sample_platform answer =
     \<lparr>fetch = (\<lambda>url opts. answer), JSON_parse = sample_parse,
      JSON_stringify = sample_stringify\<rparr>"

text \<open>Three answers of a server: success with a JSON body, 404 with a JSON body, and success
  with a body that is not JSON.\<close>

definition response_ok :: Response where
  \<open>response_ok = \<lparr>status = 200, statusText = ''OK'', body_text = Inr ''{"status":"ok"}''\<rparr>\<close>

definition response_not_found :: Response where
  \<open>response_not_found =
     \<lparr>status = 404, statusText = ''Not Found'', body_text = Inr ''{"error":"missing"}''\<rparr>\<close>

definition response_plain :: Response where
  "response_plain = \<lparr>status = 200, statusText = ''OK'', body_text = Inr ''not json''\<rparr>"

text \<open>
  The panel as the page mounts it, then an API key typed in; the same with a trace id
  typed in; and the same with one file chosen and a query typed in.
\<close>

definition st_key :: panel_state where
  "st_key = (ApiTestPanel_mount endpoint_classify)\<lparr>apiKey := ''key-1''\<rparr>"

definition st_trace :: panel_state where
  "st_trace = handlePathParamChange ''trace_id'' ''abc123'' st_key"

definition st_query :: panel_state where
  "st_query =
     handleFormDataChange ''query'' ''total''
       (handleFileSelect endpoint_extract (Some [File ''a.pdf'']) st_key)"

text \<open>
  The page as it mounts, one file chosen on the first endpoint, and then a click on
  another endpoint in the sidebar.
\<close>

definition app_before :: app_state where
  "app_before =
     Index_mount\<lparr>panel := handleFileSelect endpoint_classify (Some [File ''a.pdf''])
                                (panel Index_mount)\<rparr>"

definition app_after :: app_state where
  "app_after = onSelectEndpoint ''extract'' app_before"

section \<open>Auxiliary facts\<close>

subsection \<open>Strings and loops\<close>

lemma trim_empty_iff: "trim s = [] \<longleftrightarrow> (\<forall>c \<in> set s. is_whitespace c)"
proof
  assume "trim s = []"
  then have all: "\<forall>x \<in> set (dropWhile is_whitespace s). is_whitespace x"
    by (simp add: trim_def dropWhile_eq_Nil_conv)
  have "dropWhile is_whitespace s = []"
  proof (rule ccontr)
    assume ne: "dropWhile is_whitespace s \<noteq> []"
    then have "\<not> is_whitespace (hd (dropWhile is_whitespace s))"
      by (rule hd_dropWhile)
    moreover from ne have "hd (dropWhile is_whitespace s) \<in> set (dropWhile is_whitespace s)"
      by simp
    ultimately show False using all by blast
  qed
  then show "\<forall>c \<in> set s. is_whitespace c"
    by (simp add: dropWhile_eq_Nil_conv)
next
  assume "\<forall>c \<in> set s. is_whitespace c"
  then have d: "dropWhile is_whitespace s = []"
    by (simp add: dropWhile_eq_Nil_conv)
  show "trim s = []"
    by (simp add: trim_def d)
qed

text \<open>A replacement text without a dollar sign is inserted as it is.\<close>

lemma GetSubstitution_plain:
  "CHR ''$'' \<notin> set template \<Longrightarrow> GetSubstitution matched str position template = template"
  by (induction matched str position template rule: GetSubstitution.induct) auto

lemma fold_push: "fold (\<lambda>x m. if Q x then m @ [f x] else m) xs acc = acc @ map f (filter Q xs)"
  by (induction xs arbitrary: acc) simp_all

lemma missingFields_eq: "missingFields endpoint st = missing_required endpoint st"
  by (simp add: missingFields_def missing_required_def fold_push)

lemma fold_file_entries:
  "fold (\<lambda>file b. b @ [(n, FileValue file)]) files acc
   = acc @ map (\<lambda>file. (n, FileValue file)) files"
  by (induction files arbitrary: acc) simp_all

lemma fold_field_entries:
  "fold (\<lambda>field b. case m (field_name field) of
                      None \<Rightarrow> b
                    | Some v \<Rightarrow> b @ [(field_name field, StringValue v)]) declared acc
   = acc @ concat (map (\<lambda>field. case m (field_name field) of
                                  None \<Rightarrow> []
                                | Some v \<Rightarrow> [(field_name field, StringValue v)]) declared)"
  by (induction declared arbitrary: acc) (simp_all split: option.splits)

lemma fold_defaults_map:
  "fold (\<lambda>field m. m(field_name field \<mapsto>
            (case field_defaultValue field of None \<Rightarrow> [] | Some d \<Rightarrow> d))) declared m0
   = m0 ++ map_of (rev (map (\<lambda>field. (field_name field,
                      (case field_defaultValue field of None \<Rightarrow> [] | Some d \<Rightarrow> d))) declared))"
  by (induction declared arbitrary: m0) simp_all

lemma initialFormData_lookup:
  assumes "distinct (map field_name (elements (formFields endpoint)))"
    and "field \<in> set (elements (formFields endpoint))"
  shows "initialFormData endpoint (field_name field)
         = Some (case field_defaultValue field of None \<Rightarrow> [] | Some d \<Rightarrow> d)"
proof -
  let ?pairs = "rev (map (\<lambda>field. (field_name field,
      (case field_defaultValue field of None \<Rightarrow> [] | Some d \<Rightarrow> d)))
      (elements (formFields endpoint)))"
  from assms(1) have "distinct (map fst ?pairs)"
    by (simp add: rev_map [symmetric] comp_def)
  moreover from assms(2)
  have "(field_name field, (case field_defaultValue field of None \<Rightarrow> [] | Some d \<Rightarrow> d))
        \<in> set ?pairs"
    by auto
  ultimately have "map_of ?pairs (field_name field)
      = Some (case field_defaultValue field of None \<Rightarrow> [] | Some d \<Rightarrow> d)"
    by (rule map_of_is_SomeI)
  then show ?thesis
    by (simp add: initialFormData_def fold_defaults_map)
qed

subsection \<open>The effects of the handler\<close>

lemma handleApiCall_valid:
  assumes "trim (apiKey st) \<noteq> []" and "missingFields endpoint st = []"
  shows "handleApiCall P endpoint st =
           [SetIsLoading True, SetError [], SetResponse [], SetResponseStatus None]
           @ try_block P endpoint st @ [SetIsLoading False]"
  using assms by (simp add: handleApiCall_def)

lemma try_block_shape:
  "\<exists>outcome. try_block P endpoint st =
      Fetch (buildApiUrl endpoint st) (fetchOptions endpoint st) # outcome
      \<and> filter is_Fetch outcome = [] \<and> filter is_SetIsLoading outcome = []"
  by (simp add: try_block_def catch_block_def Let_def split: sum.splits option.splits)

lemma isLoading_run_events:
  "filter is_SetIsLoading evs = [] \<Longrightarrow> isLoading (run_events evs st) = isLoading st"
proof (induction evs arbitrary: st)
  case Nil
  then show ?case by (simp add: run_events_def)
next
  case (Cons e evs)
  from Cons.prems have rest: "filter is_SetIsLoading evs = []" and e: "\<not> is_SetIsLoading e"
    by (auto split: if_splits)
  from e have "isLoading (apply_event e st) = isLoading st"
    by (cases e) simp_all
  with Cons.IH [OF rest, of "apply_event e st"] show ?case
    by (simp add: run_events_def)
qed

lemma run_events_append: "run_events (xs @ ys) st = run_events ys (run_events xs st)"
  by (simp add: run_events_def)

text \<open>The state that \<^verbatim>\<open>handleApiCall\<close> leaves, for each way the request can end.\<close>

lemma final_state_thrown:
  assumes "trim (apiKey st) \<noteq> []" and "missingFields endpoint st = []"
    and "fetch P (buildApiUrl endpoint st) (fetchOptions endpoint st) = Inl err"
  shows "run_events (handleApiCall P endpoint st) st =
           st\<lparr>isLoading := False, error := errorMessage err,
              response := ''Error: '' @ errorMessage err, responseStatus := None\<rparr>"
  using assms(3)
  by (simp add: handleApiCall_valid [OF assms(1,2)] try_block_def catch_block_def
      run_events_def)

lemma final_state_text_thrown:
  assumes "trim (apiKey st) \<noteq> []" and "missingFields endpoint st = []"
    and "fetch P (buildApiUrl endpoint st) (fetchOptions endpoint st) = Inr r"
    and "body_text r = Inl err"
  shows "run_events (handleApiCall P endpoint st) st =
           st\<lparr>isLoading := False, error := errorMessage err,
              response := ''Error: '' @ errorMessage err, responseStatus := None\<rparr>"
  using assms(3,4)
  by (simp add: handleApiCall_valid [OF assms(1,2)] try_block_def catch_block_def
      run_events_def)

lemma final_state_received:
  assumes "trim (apiKey st) \<noteq> []" and "missingFields endpoint st = []"
    and "fetch P (buildApiUrl endpoint st) (fetchOptions endpoint st) = Inr r"
    and "body_text r = Inr t"
  shows "run_events (handleApiCall P endpoint st) st =
           st\<lparr>isLoading := False,
              error := (if ok r then []
                        else ''HTTP '' @ decimal (status r) @ '': '' @ statusText r),
              response := (case JSON_parse P t of Some j \<Rightarrow> JSON_stringify P j
                                                | None \<Rightarrow> t),
              responseStatus := Some (status r)\<rparr>"
  using assms(3,4)
  by (simp add: handleApiCall_valid [OF assms(1,2)] try_block_def catch_block_def
      run_events_def)

subsection \<open>The sample inputs\<close>

lemma st_key_fields:
  "apiKey st_key = ''key-1''" "selectedFiles st_key = []" "formData st_key = Map.empty"
  "pathParams st_key = Map.empty" "response st_key = []" "responseStatus st_key = None"
  "isLoading st_key = False" "error st_key = []"
  by (simp_all add: st_key_def ApiTestPanel_mount_def initialFormData_def
      endpoint_classify_def elements_def)

lemma not_whitespace_k: "\<not> is_whitespace CHR ''k''"
  by (simp add: is_whitespace_def)

lemma trim_key: "trim ''key-1'' \<noteq> []"
  by (simp add: trim_empty_iff not_whitespace_k)

lemma blank_simps: "blank None" "blank (Some ''abc123'') = False" "blank (Some ''total'') = False"
  by (simp_all add: blank_def trim_empty_iff is_whitespace_def)

lemma st_trace_fields:
  "apiKey st_trace = ''key-1''" "selectedFiles st_trace = []"
  "pathParams st_trace = [''trace_id'' \<mapsto> ''abc123'']" "response st_trace = []"
  "responseStatus st_trace = None" "isLoading st_trace = False" "error st_trace = []"
  by (simp_all add: st_trace_def handlePathParamChange_def st_key_fields)

lemma st_trace_valid:
  "trim (apiKey st_trace) \<noteq> []" "missingFields endpoint_trace st_trace = []"
  by (simp_all add: st_trace_fields trim_key missingFields_eq missing_required_def
      endpoint_trace_def elements_def blank_simps)

lemma st_query_fields:
  "apiKey st_query = ''key-1''" "selectedFiles st_query = [File ''a.pdf'']"
  "formData st_query = [''query'' \<mapsto> ''total'']"
  by (simp_all add: st_query_def handleFormDataChange_def handleFileSelect_def
      fileUpload_multiple_def endpoint_extract_def st_key_fields)

lemma sample_fetch [simp]: "fetch (sample_platform answer) url opts = answer"
  by (simp add: sample_platform_def)

lemma sample_json:
  \<open>JSON_parse (sample_platform answer) ''{"status":"ok"}'' = Some [(''status'', ''ok'')]\<close>
  \<open>JSON_parse (sample_platform answer) ''{"error":"missing"}'' = Some [(''error'', ''missing'')]\<close>
  \<open>JSON_parse (sample_platform answer) ''not json'' = None\<close>
  \<open>JSON_stringify (sample_platform answer) [(''status'', ''ok'')]
     = ''{'' @ [CHR 0x0A] @ ''  "status": "ok"'' @ [CHR 0x0A] @ ''}''\<close>
  \<open>JSON_stringify (sample_platform answer) [(''error'', ''missing'')]
     = ''{'' @ [CHR 0x0A] @ ''  "error": "missing"'' @ [CHR 0x0A] @ ''}''\<close>
  by (simp_all add: sample_platform_def sample_parse_def sample_stringify_def)

lemma errorMessage_simps:
  "errorMessage (Error m) = m" "errorMessage NotAnError = ''An unexpected error occurred''"
  by (simp_all add: errorMessage_def)

lemma decimal_404: "decimal 404 = ''404''"
  by code_simp

lemma buildApiUrl_trace_abc123:
  "buildApiUrl endpoint_trace st_trace
   = ''https://kong-uat-proxy.hachiai.com/quest/v1/trace_id/abc123''"
  by (simp add: buildApiUrl_def endpoint_trace_def elements_def st_trace_fields replace_def)

lemma fetchOptions_trace:
  "fetchOptions endpoint_trace st_trace
   = \<lparr>req_method = GET, req_headers = [(''apiKey'', ''key-1'')], req_body = None\<rparr>"
  by (simp add: fetchOptions_def build_body_def endpoint_trace_def st_trace_fields)

lemma app_after_fields:
  "selectedEndpoint app_after = ''extract''"
  "apiKey (panel app_after) = []"
  "selectedFiles (panel app_after) = [File ''a.pdf'']"
  "formData (panel app_after) = Map.empty"
  by (simp_all add: app_after_def app_before_def onSelectEndpoint_def Index_mount_def
      Index_render_def ApiTestPanel_render_def
      handleFileSelect_def fileUpload_multiple_def currentEndpoint_def realEndpoints_def
      ApiTestPanel_mount_def initialFormData_def endpoint_classify_def elements_def)

lemma currentEndpoint_extract: "currentEndpoint ''extract'' = endpoint_extract"
  by (simp add: currentEndpoint_def realEndpoints_def endpoint_classify_def
      endpoint_extract_async_def endpoint_extract_def)

section \<open>File selection\<close>

text \<open>
  Claim C8. On an endpoint whose file upload does not allow several files (or that
  declares none), a selection event replaces the selected files by at most the first
  file supplied, so selecting \<open>[A, B]\<close> leaves \<open>[A]\<close>. On an endpoint that allows
  several files, a selection event appends the supplied files to the selected ones, so
  selecting \<open>[A]\<close> and then \<open>[B]\<close> adds \<open>[A, B]\<close> to the end of the list.
\<close>

theorem handleFileSelect_single_multiple:
  "(\<not> fileUpload_multiple endpoint \<longrightarrow>
      selectedFiles (handleFileSelect endpoint (Some fs) st) = take 1 fs
      \<and> selectedFiles (handleFileSelect endpoint (Some [A, B]) st) = [A])
   \<and> (fileUpload_multiple endpoint \<longrightarrow>
      selectedFiles (handleFileSelect endpoint (Some fs) st) = selectedFiles st @ fs
      \<and> selectedFiles (handleFileSelect endpoint (Some [B])
                         (handleFileSelect endpoint (Some [A]) st))
          = selectedFiles st @ [A, B])"
  by (simp add: handleFileSelect_def)

theorem handleFileSelect_single_multiple_witness:
  "\<not> fileUpload_multiple endpoint_classify
   \<and> selectedFiles (handleFileSelect endpoint_classify
                      (Some [File ''a.pdf'', File ''b.pdf'']) st_query) = [File ''a.pdf'']
   \<and> fileUpload_multiple endpoint_extract
   \<and> selectedFiles (handleFileSelect endpoint_extract (Some [File ''b.pdf''])
                      (handleFileSelect endpoint_extract (Some [File ''a.pdf'']) st_key))
       = [File ''a.pdf'', File ''b.pdf'']"
proof -
  have single: "\<not> fileUpload_multiple endpoint_classify"
    by (simp add: fileUpload_multiple_def endpoint_classify_def)
  have multi: "fileUpload_multiple endpoint_extract"
    by (simp add: fileUpload_multiple_def endpoint_extract_def)
  from handleFileSelect_single_multiple
         [of endpoint_classify "[File ''a.pdf'', File ''b.pdf'']" st_query
             "File ''a.pdf''" "File ''b.pdf''"]
       handleFileSelect_single_multiple
         [of endpoint_extract "[]" st_key "File ''a.pdf''" "File ''b.pdf''"]
       single multi
  show ?thesis by (simp add: st_key_fields)
qed

section \<open>Early returns of the request handler\<close>

text \<open>
  Claim C9. When the API key is empty after trimming, that is (by \<open>trim_empty_iff\<close>) when
  it is empty or consists of white space only, the handler performs exactly one effect,
  the toast that asks for the API key: it dispatches no request, whatever the endpoint,
  the form values and the selected files are, so also when required inputs are missing.
\<close>

theorem handleApiCall_blank_apiKey:
  assumes "trim (apiKey st) = []"
  shows "handleApiCall P endpoint st =
           [Toast \<lparr>title = ''Error'', description = ''Please enter your API key'',
                   variant = Some ''destructive''\<rparr>]
         \<and> filter is_Fetch (handleApiCall P endpoint st) = []"
  using assms by (simp add: handleApiCall_def)

theorem handleApiCall_blank_apiKey_witness:
  "trim (apiKey (st_key\<lparr>apiKey := ''  ''\<rparr>)) = []
   \<and> missingFields endpoint_extract (st_key\<lparr>apiKey := ''  ''\<rparr>) = [''file(s)'', ''query'']
   \<and> handleApiCall (sample_platform (Inl NotAnError)) endpoint_extract
        (st_key\<lparr>apiKey := ''  ''\<rparr>)
      = [Toast \<lparr>title = ''Error'', description = ''Please enter your API key'',
                variant = Some ''destructive''\<rparr>]"
proof -
  have blank_key: "trim (apiKey (st_key\<lparr>apiKey := ''  ''\<rparr>)) = []"
    by (simp add: trim_empty_iff is_whitespace_def)
  have missing: "missingFields endpoint_extract (st_key\<lparr>apiKey := ''  ''\<rparr>)
                 = [''file(s)'', ''query'']"
    by (simp add: missingFields_eq missing_required_def endpoint_extract_def elements_def
        st_key_fields blank_simps)
  from handleApiCall_blank_apiKey [OF blank_key] blank_key missing
  show ?thesis by blast
qed

text \<open>
  Claim C1. When the API key is not blank and at least one required input is missing, the
  handler performs exactly one effect, a toast whose text lists the missing inputs
  separated by commas: the entry for the file upload first (the handler prints it as
  \<^verbatim>\<open>file(s)\<close>), then the names of the
  required form fields whose value is unset or blank, then the names of the required path
  parameters whose value is unset or blank. It dispatches no request.
\<close>

theorem handleApiCall_missing_required:
  assumes "trim (apiKey st) \<noteq> []" and "missing_required endpoint st \<noteq> []"
  shows "handleApiCall P endpoint st =
           [Toast \<lparr>title = ''Missing Required Fields'',
                   description = ''Please provide: '' @ join '', '' (missing_required endpoint st),
                   variant = Some ''destructive''\<rparr>]
         \<and> filter is_Fetch (handleApiCall P endpoint st) = []"
  using assms by (simp add: handleApiCall_def missingFields_eq)

theorem handleApiCall_missing_required_witness:
  "trim (apiKey st_key) \<noteq> []
   \<and> missing_required endpoint_extract st_key = [''file(s)'', ''query'']
   \<and> handleApiCall (sample_platform (Inl NotAnError)) endpoint_extract st_key
      = [Toast \<lparr>title = ''Missing Required Fields'',
                description = ''Please provide: file(s), query'',
                variant = Some ''destructive''\<rparr>]"
proof -
  have key: "trim (apiKey st_key) \<noteq> []"
    by (simp add: st_key_fields trim_key)
  have missing: "missing_required endpoint_extract st_key = [''file(s)'', ''query'']"
    by (simp add: missing_required_def endpoint_extract_def elements_def
        st_key_fields blank_simps)
  then have some: "missing_required endpoint_extract st_key \<noteq> []"
    by simp
  from handleApiCall_missing_required [OF key some, of "sample_platform (Inl NotAnError)"]
       key missing
  show ?thesis by simp
qed

text \<open>
  Claim C10. When the handler returns early, because the API key is blank or because a
  required input is missing, its effects leave the whole state as it was, so the stored
  response, status, error message and loading flag are unchanged, and no request is
  dispatched. When validation passes, the first five effects are the setting of the
  loading flag, the three resets of error message, response and status, and then the
  dispatch of the request: the previous outcome is cleared right before the dispatch.
\<close>

theorem handleApiCall_early_exit_frame:
  "(trim (apiKey st) = [] \<or> missingFields endpoint st \<noteq> [] \<longrightarrow>
      run_events (handleApiCall P endpoint st) st = st
      \<and> filter is_Fetch (handleApiCall P endpoint st) = [])
   \<and> (trim (apiKey st) \<noteq> [] \<and> missingFields endpoint st = [] \<longrightarrow>
      take 5 (handleApiCall P endpoint st) =
        [SetIsLoading True, SetError [], SetResponse [], SetResponseStatus None,
         Fetch (buildApiUrl endpoint st) (fetchOptions endpoint st)])"
proof (intro conjI impI)
  assume early: "trim (apiKey st) = [] \<or> missingFields endpoint st \<noteq> []"
  then have "\<exists>t. handleApiCall P endpoint st = [Toast t]"
    by (cases "trim (apiKey st) = []") (simp_all add: handleApiCall_def)
  then obtain t where toast: "handleApiCall P endpoint st = [Toast t]" ..
  show "run_events (handleApiCall P endpoint st) st = st"
    by (simp add: toast run_events_def)
  show "filter is_Fetch (handleApiCall P endpoint st) = []"
    by (simp add: toast)
next
  assume valid: "trim (apiKey st) \<noteq> [] \<and> missingFields endpoint st = []"
  obtain outcome where "try_block P endpoint st =
      Fetch (buildApiUrl endpoint st) (fetchOptions endpoint st) # outcome"
    using try_block_shape [of P endpoint st] by blast
  with valid show "take 5 (handleApiCall P endpoint st) =
        [SetIsLoading True, SetError [], SetResponse [], SetResponseStatus None,
         Fetch (buildApiUrl endpoint st) (fetchOptions endpoint st)]"
    by (simp add: handleApiCall_valid)
qed

text \<open>
  The three cases at sample inputs: a blank key, a missing file and query, and a valid
  request for a trace id.
\<close>

theorem handleApiCall_early_exit_frame_witness:
  "trim (apiKey (st_key\<lparr>apiKey := ''  ''\<rparr>)) = []
   \<and> run_events (handleApiCall (sample_platform (Inr response_ok)) endpoint_extract
                   (st_key\<lparr>apiKey := ''  ''\<rparr>)) (st_key\<lparr>apiKey := ''  ''\<rparr>)
      = st_key\<lparr>apiKey := ''  ''\<rparr>
   \<and> missingFields endpoint_extract st_key \<noteq> []
   \<and> run_events (handleApiCall (sample_platform (Inr response_ok)) endpoint_extract st_key)
        st_key = st_key
   \<and> trim (apiKey st_trace) \<noteq> [] \<and> missingFields endpoint_trace st_trace = []
   \<and> take 5 (handleApiCall (sample_platform (Inr response_ok)) endpoint_trace st_trace) =
        [SetIsLoading True, SetError [], SetResponse [], SetResponseStatus None,
         Fetch ''https://kong-uat-proxy.hachiai.com/quest/v1/trace_id/abc123''
               \<lparr>req_method = GET, req_headers = [(''apiKey'', ''key-1'')], req_body = None\<rparr>]"
proof -
  let ?P = "sample_platform (Inr response_ok)"
  have blank_key: "trim (apiKey (st_key\<lparr>apiKey := ''  ''\<rparr>)) = []"
    by (simp add: trim_empty_iff is_whitespace_def)
  have missing: "missingFields endpoint_extract st_key \<noteq> []"
    by (simp add: missingFields_eq missing_required_def endpoint_extract_def elements_def
        st_key_fields blank_simps)
  from handleApiCall_early_exit_frame [of "st_key\<lparr>apiKey := ''  ''\<rparr>" endpoint_extract ?P]
       handleApiCall_early_exit_frame [of st_key endpoint_extract ?P]
       handleApiCall_early_exit_frame [of st_trace endpoint_trace ?P]
       blank_key missing st_trace_valid
  show ?thesis
    by (simp add: buildApiUrl_trace_abc123 fetchOptions_trace)
qed

section \<open>Dispatch and outcome\<close>

text \<open>
  Claim C3. When validation passes, the effects of the handler are, in the order of the
  calls: some effects that dispatch nothing and after which the loading flag is true, the
  one dispatch of the request, the effects that record the outcome, and last the clearing
  of the loading flag. The flag is still true when the outcome has been recorded and is
  false at the end, whatever the platform answers: a response with a success status, a
  response with any other status, or a thrown value.
\<close>

theorem handleApiCall_isLoading:
  assumes "trim (apiKey st) \<noteq> []" and "missingFields endpoint st = []"
  shows "\<exists>before outcome.
           handleApiCall P endpoint st
             = before @ [Fetch (buildApiUrl endpoint st) (fetchOptions endpoint st)]
               @ outcome @ [SetIsLoading False]
           \<and> filter is_Fetch before = [] \<and> filter is_Fetch outcome = []
           \<and> isLoading (run_events before st)
           \<and> isLoading (run_events (before
                 @ [Fetch (buildApiUrl endpoint st) (fetchOptions endpoint st)] @ outcome) st)
           \<and> \<not> isLoading (run_events (handleApiCall P endpoint st) st)"
proof -
  let ?before = "[SetIsLoading True, SetError [], SetResponse [], SetResponseStatus None]"
  let ?fetch = "Fetch (buildApiUrl endpoint st) (fetchOptions endpoint st)"
  obtain outcome where shape: "try_block P endpoint st = ?fetch # outcome"
    and no_fetch: "filter is_Fetch outcome = []"
    and no_set: "filter is_SetIsLoading outcome = []"
    using try_block_shape [of P endpoint st] by blast
  have events: "handleApiCall P endpoint st = ?before @ [?fetch] @ outcome @ [SetIsLoading False]"
    by (simp add: handleApiCall_valid [OF assms] shape)
  have at_dispatch: "isLoading (run_events ?before st)"
    by (simp add: run_events_def)
  have "filter is_SetIsLoading ([?fetch] @ outcome) = []"
    by (simp add: no_set)
  then have "isLoading (run_events ([?fetch] @ outcome) (run_events ?before st))
             = isLoading (run_events ?before st)"
    by (rule isLoading_run_events)
  with at_dispatch have recorded: "isLoading (run_events (?before @ [?fetch] @ outcome) st)"
    by (simp only: run_events_append)
  have final: "\<not> isLoading (run_events (handleApiCall P endpoint st) st)"
  proof -
    have "handleApiCall P endpoint st = (?before @ [?fetch] @ outcome) @ [SetIsLoading False]"
      by (simp add: events)
    then have "run_events (handleApiCall P endpoint st) st
      = run_events [SetIsLoading False] (run_events (?before @ [?fetch] @ outcome) st)"
      by (simp only: run_events_append)
    then show ?thesis by (simp add: run_events_def)
  qed
  from events no_fetch at_dispatch recorded final show ?thesis
    by (intro exI [of _ ?before] exI [of _ outcome]) simp
qed

text \<open>The loading flag at the end of a request answered by 200, by 404 and by a thrown error.\<close>

theorem handleApiCall_isLoading_witness:
  "trim (apiKey st_trace) \<noteq> [] \<and> missingFields endpoint_trace st_trace = []
   \<and> \<not> isLoading (run_events
         (handleApiCall (sample_platform (Inr response_ok)) endpoint_trace st_trace) st_trace)
   \<and> \<not> isLoading (run_events
         (handleApiCall (sample_platform (Inr response_not_found)) endpoint_trace st_trace)
         st_trace)
   \<and> \<not> isLoading (run_events
         (handleApiCall (sample_platform (Inl (Error ''Failed to fetch''))) endpoint_trace
            st_trace) st_trace)"
  using handleApiCall_isLoading [OF st_trace_valid, of "sample_platform (Inr response_ok)"]
    handleApiCall_isLoading [OF st_trace_valid, of "sample_platform (Inr response_not_found)"]
    handleApiCall_isLoading [OF st_trace_valid,
      of "sample_platform (Inl (Error ''Failed to fetch''))"]
    st_trace_valid
  by blast

text \<open>
  Claim C4, as amended. When validation passes, the state after the handler is as follows.
  If the response and its body text arrive, the status is recorded, the response text is
  the body (re-serialised when it parses as JSON), and the error message is empty for a
  status from 200 to 299 and is \<^verbatim>\<open>HTTP <status>: <statusText>\<close> for any other status. If
  \<^verbatim>\<open>fetch\<close> or the reading of the body throws, the error message is the message of the
  thrown error (a fixed text when the thrown value is not an \<^verbatim>\<open>Error\<close>), the response
  text is \<^verbatim>\<open>Error: \<close> followed by that message, and no status is recorded.
\<close>

theorem handleApiCall_outcome:
  assumes "trim (apiKey st) \<noteq> []" and "missingFields endpoint st = []"
  shows "let final = run_events (handleApiCall P endpoint st) st in
           (case fetch P (buildApiUrl endpoint st) (fetchOptions endpoint st) of
              Inl err \<Rightarrow>
                error final = errorMessage err
                \<and> response final = ''Error: '' @ errorMessage err
                \<and> responseStatus final = None
            | Inr r \<Rightarrow>
                (case body_text r of
                   Inl err \<Rightarrow>
                     error final = errorMessage err
                     \<and> response final = ''Error: '' @ errorMessage err
                     \<and> responseStatus final = None
                 | Inr t \<Rightarrow>
                     responseStatus final = Some (status r)
                     \<and> response final = (case JSON_parse P t of
                                            Some j \<Rightarrow> JSON_stringify P j
                                          | None \<Rightarrow> t)
                     \<and> error final =
                         (if 200 \<le> status r \<and> status r < 300 then []
                          else ''HTTP '' @ decimal (status r) @ '': '' @ statusText r)))"
proof (cases "fetch P (buildApiUrl endpoint st) (fetchOptions endpoint st)")
  case (Inl err)
  with final_state_thrown [OF assms Inl] show ?thesis
    by simp
next
  case (Inr r)
  show ?thesis
  proof (cases "body_text r")
    case (Inl err)
    with final_state_text_thrown [OF assms Inr Inl] Inr show ?thesis
      by simp
  next
    case inner: (Inr t)
    have "ok r \<longleftrightarrow> 200 \<le> status r \<and> status r < 300"
      by (auto simp: ok_def)
    with final_state_received [OF assms Inr inner] Inr inner show ?thesis
      by simp
  qed
qed

text \<open>
  A 404 answer with the body \<^verbatim>\<open>{"error":"missing"}\<close>, a 200 answer, and a request that
  fails with \<^verbatim>\<open>Failed to fetch\<close>.
\<close>

theorem handleApiCall_outcome_witness:
  \<open>trim (apiKey st_trace) \<noteq> [] \<and> missingFields endpoint_trace st_trace = []
   \<and> responseStatus (run_events
        (handleApiCall (sample_platform (Inr response_not_found)) endpoint_trace st_trace)
        st_trace) = Some 404
   \<and> error (run_events
        (handleApiCall (sample_platform (Inr response_not_found)) endpoint_trace st_trace)
        st_trace) = ''HTTP 404: Not Found''
   \<and> response (run_events
        (handleApiCall (sample_platform (Inr response_not_found)) endpoint_trace st_trace)
        st_trace) = ''{'' @ [CHR 0x0A] @ ''  "error": "missing"'' @ [CHR 0x0A] @ ''}''
   \<and> error (run_events
        (handleApiCall (sample_platform (Inr response_ok)) endpoint_trace st_trace)
        st_trace) = []
   \<and> error (run_events
        (handleApiCall (sample_platform (Inl (Error ''Failed to fetch''))) endpoint_trace
           st_trace) st_trace) = ''Failed to fetch''
   \<and> response (run_events
        (handleApiCall (sample_platform (Inl (Error ''Failed to fetch''))) endpoint_trace
           st_trace) st_trace) = ''Error: Failed to fetch''\<close>
  using handleApiCall_outcome [OF st_trace_valid, of "sample_platform (Inr response_not_found)"]
    handleApiCall_outcome [OF st_trace_valid, of "sample_platform (Inr response_ok)"]
    handleApiCall_outcome [OF st_trace_valid,
      of "sample_platform (Inl (Error ''Failed to fetch''))"]
    st_trace_valid
  by (simp add: Let_def response_not_found_def response_ok_def sample_json decimal_404
      errorMessage_simps)

text \<open>
  Claim C4 as the specification states it says that the response text stays empty when
  the request never reaches a server. At this input it does not.
\<close>

theorem transport_failure_body_counterexample:
  "error (run_events
      (handleApiCall (sample_platform (Inl (Error ''Failed to fetch''))) endpoint_trace
         st_trace) st_trace) = ''Failed to fetch''
   \<and> response (run_events
      (handleApiCall (sample_platform (Inl (Error ''Failed to fetch''))) endpoint_trace
         st_trace) st_trace) \<noteq> []"
  using final_state_thrown [OF st_trace_valid,
      of "sample_platform (Inl (Error ''Failed to fetch''))" "Error ''Failed to fetch''"]
  by (simp add: errorMessage_simps)

text \<open>
  Claim C5. When validation passes and the body text of the response arrives, the
  response text in the state is the re-serialisation of the parsed value if the text
  parses as JSON, and the text itself, unchanged, if it does not.
\<close>

theorem handleApiCall_body_text:
  assumes "trim (apiKey st) \<noteq> []" and "missingFields endpoint st = []"
    and "fetch P (buildApiUrl endpoint st) (fetchOptions endpoint st) = Inr r"
    and "body_text r = Inr t"
  shows "response (run_events (handleApiCall P endpoint st) st)
         = (case JSON_parse P t of Some j \<Rightarrow> JSON_stringify P j | None \<Rightarrow> t)"
  by (simp add: final_state_received [OF assms])

text \<open>The bodies \<^verbatim>\<open>{"status":"ok"}\<close> and \<^verbatim>\<open>not json\<close>.\<close>

theorem handleApiCall_body_text_witness:
  \<open>trim (apiKey st_trace) \<noteq> [] \<and> missingFields endpoint_trace st_trace = []
   \<and> body_text response_ok = Inr ''{"status":"ok"}''
   \<and> response (run_events
        (handleApiCall (sample_platform (Inr response_ok)) endpoint_trace st_trace) st_trace)
      = ''{'' @ [CHR 0x0A] @ ''  "status": "ok"'' @ [CHR 0x0A] @ ''}''
   \<and> body_text response_plain = Inr ''not json''
   \<and> response (run_events
        (handleApiCall (sample_platform (Inr response_plain)) endpoint_trace st_trace) st_trace)
      = ''not json''\<close>
proof -
  have ok_body: \<open>body_text response_ok = Inr ''{"status":"ok"}''\<close>
    by (simp add: response_ok_def)
  have plain_body: "body_text response_plain = Inr ''not json''"
    by (simp add: response_plain_def)
  from handleApiCall_body_text [OF st_trace_valid sample_fetch ok_body]
       handleApiCall_body_text [OF st_trace_valid sample_fetch plain_body]
       st_trace_valid ok_body plain_body
  show ?thesis
    by (simp add: sample_json)
qed

section \<open>The URL\<close>

text \<open>
  On the one endpoint of the catalog with a path parameter, every value that is not empty
  and holds no dollar sign takes the place of the placeholder.
\<close>

lemma buildApiUrl_trace_plain:
  assumes "v \<noteq> []" and "CHR ''$'' \<notin> set v"
  shows "buildApiUrl endpoint_trace (handlePathParamChange ''trace_id'' v st)
         = ''https://kong-uat-proxy.hachiai.com/quest/v1/trace_id/'' @ v"
  using assms
  by (simp add: buildApiUrl_def endpoint_trace_def elements_def handlePathParamChange_def
      replace_def GetSubstitution_plain)

text \<open>
  Claim C6 says that the placeholder of a path parameter with a non-empty value is
  replaced by that value. \<^verbatim>\<open>buildApiUrl\<close> hands the value to \<^verbatim>\<open>replace\<close> as a
  replacement template, so a value that contains a dollar pattern is not inserted as it
  is: for the trace id \<^verbatim>\<open>$&\<close> the URL still holds the placeholder, where the claim
  expects \<^verbatim>\<open>/v1/trace_id/$&\<close>. (For a trace id without a dollar sign, such as
  \<^verbatim>\<open>abc123\<close>, the URL is the expected one, see \<open>buildApiUrl_trace_plain\<close>.)
\<close>

theorem buildApiUrl_dollar_pattern:
  "buildApiUrl endpoint_trace (handlePathParamChange ''trace_id'' ''$&'' st_key)
   = ''https://kong-uat-proxy.hachiai.com/quest/v1/trace_id/{trace_id}''"
  by (simp add: buildApiUrl_def endpoint_trace_def elements_def handlePathParamChange_def
      st_key_fields replace_def)

section \<open>The request body\<close>

text \<open>
  Claim C7, as amended. For an endpoint whose method is not GET and whose body type is
  multipart, the body of the dispatched request holds one entry per selected file under
  the name of the file upload, in the order of selection (and no file entry when the
  endpoint declares no file upload), followed by one entry for each declared form field
  that has a value, under its own name and in the order of declaration. A declared form
  field that is unset has no entry.
\<close>

theorem build_body_multipart:
  assumes "ep_method endpoint \<noteq> GET"
    and "requestBodyType endpoint = Some ''multipart/form-data''"
  shows "req_body (fetchOptions endpoint st) =
           Some ((case fileUpload endpoint of
                    None \<Rightarrow> []
                  | Some u \<Rightarrow> map (\<lambda>file. (upload_name u, FileValue file)) (selectedFiles st))
                 @ concat (map (\<lambda>field. case formData st (field_name field) of
                                           None \<Rightarrow> []
                                         | Some v \<Rightarrow> [(field_name field, StringValue v)])
                               (elements (formFields endpoint))))"
  using assms
  by (simp add: fetchOptions_def build_body_def fold_file_entries fold_field_entries
      split: option.splits)

theorem build_body_multipart_witness:
  "ep_method endpoint_extract \<noteq> GET
   \<and> requestBodyType endpoint_extract = Some ''multipart/form-data''
   \<and> req_body (fetchOptions endpoint_extract st_query)
      = Some [(''files'', FileValue (File ''a.pdf'')), (''query'', StringValue ''total'')]"
proof -
  have m: "ep_method endpoint_extract \<noteq> GET"
    and t: "requestBodyType endpoint_extract = Some ''multipart/form-data''"
    by (simp_all add: endpoint_extract_def)
  from build_body_multipart [OF m t, of st_query] m t show ?thesis
    by (simp add: endpoint_extract_def elements_def st_query_fields)
qed

text \<open>
  Claim C7 as the specification states it gives an unset form field an entry with the
  empty string. At this input the field \<^verbatim>\<open>tags\<close> is unset and the body has no entry for
  it.
\<close>

theorem build_body_unset_field_counterexample:
  "formData st_query ''tags'' = None
   \<and> build_body endpoint_extract st_query
      = Some [(''files'', FileValue (File ''a.pdf'')), (''query'', StringValue ''total'')]
   \<and> body_by_spec endpoint_extract st_query
      = [(''files'', FileValue (File ''a.pdf'')), (''query'', StringValue ''total''),
         (''tags'', StringValue [])]
   \<and> build_body endpoint_extract st_query \<noteq> Some (body_by_spec endpoint_extract st_query)"
  by (simp add: build_body_def body_by_spec_def endpoint_extract_def elements_def
      st_query_fields)

section \<open>Changing the selected endpoint\<close>

text \<open>
  Claim C2, as amended. Selecting an endpoint records its id and leaves the API key
  unchanged; the selected files, the last response, its status and the error message are
  carried over as well. The defaults of the form fields belong to the first render of
  the panel: there the selected files, the response and the error message are empty, and
  every form field of the mounted endpoint (field names being distinct) has its default
  value, or the empty string when it has none.
\<close>

theorem onSelectEndpoint_keeps_panel:
  "selectedEndpoint (onSelectEndpoint endpointId app) = endpointId
   \<and> apiKey (panel (onSelectEndpoint endpointId app)) = apiKey (panel app)
   \<and> selectedFiles (panel (onSelectEndpoint endpointId app)) = selectedFiles (panel app)
   \<and> response (panel (onSelectEndpoint endpointId app)) = response (panel app)
   \<and> responseStatus (panel (onSelectEndpoint endpointId app)) = responseStatus (panel app)
   \<and> error (panel (onSelectEndpoint endpointId app)) = error (panel app)
   \<and> selectedFiles (ApiTestPanel_mount endpoint) = []
   \<and> response (ApiTestPanel_mount endpoint) = []
   \<and> error (ApiTestPanel_mount endpoint) = []
   \<and> (distinct (map field_name (elements (formFields endpoint))) \<longrightarrow>
       (\<forall>field \<in> set (elements (formFields endpoint)).
          formData (ApiTestPanel_mount endpoint) (field_name field)
          = Some (case field_defaultValue field of None \<Rightarrow> [] | Some d \<Rightarrow> d)))"
  by (simp add: onSelectEndpoint_def Index_render_def ApiTestPanel_render_def
      ApiTestPanel_mount_def initialFormData_lookup)

theorem onSelectEndpoint_keeps_panel_witness:
  "selectedEndpoint (onSelectEndpoint ''extract'' app_before) = ''extract''
   \<and> selectedFiles (panel (onSelectEndpoint ''extract'' app_before)) = [File ''a.pdf'']
   \<and> distinct (map field_name (elements (formFields endpoint_extract)))
   \<and> formData (ApiTestPanel_mount endpoint_extract) ''query'' = Some []
   \<and> formData (ApiTestPanel_mount endpoint_extract) ''tags'' = Some ''[]''"
proof -
  have d: "distinct (map field_name (elements (formFields endpoint_extract)))"
    by (simp add: endpoint_extract_def elements_def)
  have before: "selectedFiles (panel app_before) = [File ''a.pdf'']"
    using app_after_fields(3)
    by (simp add: app_after_def onSelectEndpoint_def Index_render_def ApiTestPanel_render_def)
  from onSelectEndpoint_keeps_panel [of "''extract''" app_before endpoint_extract] d before
  show ?thesis
    by (simp add: endpoint_extract_def elements_def)
qed

text \<open>
  Claim C2 as the specification states it says that a switch empties the selected files
  and sets every form field of the new endpoint to its default. After this switch to the
  endpoint \<^verbatim>\<open>extract\<close> the file chosen before is still selected, and the form fields
  \<^verbatim>\<open>tags\<close> and \<^verbatim>\<open>query\<close> hold neither the default \<^verbatim>\<open>[]\<close> nor the empty string.
\<close>

theorem onSelectEndpoint_no_reset_counterexample:
  "currentEndpoint (selectedEndpoint app_after) = endpoint_extract
   \<and> selectedFiles (panel app_after) \<noteq> []
   \<and> formData (panel app_after) ''tags'' \<noteq> Some ''[]''
   \<and> formData (panel app_after) ''query'' \<noteq> Some []"
  by (simp add: app_after_fields currentEndpoint_extract)

end
